theory Spec2Isabelle
  imports Main "HOL-Library.Sublist"
begin

section \<open>Regular expressions as the program uses them\<close>

text \<open>
  The program is a Python script, \<open>update_exceptions.py\<close>, that rewrites PHP catch blocks
  with three regular expressions. Documents are modelled as \<open>string\<close>, one \<open>char\<close> per
  code point below 256. A pattern is the list of its items in the order they are written;
  every repetition of the three patterns ranges over a single character class, and every group
  sits at the top level, so a group is recorded by two \<open>Mark\<close> items, as the compiled
  form of the \<open>re\<close> module does.
\<close>

definition is_space :: "char \<Rightarrow> bool" where
  \<comment> \<open>\<open>\s\<close> on a \<open>str\<close> pattern: the code points below 256 for which \<open>str.isspace\<close> holds\<close>
  "is_space c \<longleftrightarrow> c \<in> set [CHR 0x09, CHR 0x0A, CHR 0x0B, CHR 0x0C, CHR 0x0D,
      CHR 0x1C, CHR 0x1D, CHR 0x1E, CHR 0x1F, CHR 0x20, CHR 0x85, CHR 0xA0]"

datatype cclass =
    Lit char            \<comment> \<open>a literal character\<close>
  | Space               \<comment> \<open>\<open>\s\<close>\<close>
  | NotChr char         \<comment> \<open>\<open>[^c]\<close>\<close>
  | OneOf "char list"   \<comment> \<open>\<open>[...]\<close>\<close>
  | AnyChr              \<comment> \<open>\<open>.\<close> under \<open>re.DOTALL\<close>\<close>

fun cmatch :: "cclass \<Rightarrow> char \<Rightarrow> bool" where
  "cmatch (Lit c) x = (x = c)"
| "cmatch Space x = is_space x"
| "cmatch (NotChr c) x = (x \<noteq> c)"
| "cmatch (OneOf cs) x = (x \<in> set cs)"
| "cmatch AnyChr x = True"

datatype item =
    One cclass     \<comment> \<open>exactly one character of the class\<close>
  | Opt cclass     \<comment> \<open>\<open>c?\<close>, greedy\<close>
  | Star cclass    \<comment> \<open>\<open>c*\<close>, greedy\<close>
  | Plus cclass    \<comment> \<open>\<open>c+\<close>, greedy\<close>
  | Lazy cclass    \<comment> \<open>\<open>c*?\<close>, non-greedy\<close>
  | Mark           \<comment> \<open>a group boundary: records the current offset\<close>

text \<open>
  The backtracking matcher: \<open>bt r s n ms\<close> matches the items \<open>r\<close> at the start of \<open>s\<close>,
  where \<open>n\<close> characters have been consumed so far and \<open>ms\<close> are the offsets recorded so far.
  It tries the alternatives of every repetition in the order of the \<open>re\<close> module (longest
  first for a greedy item, shortest first for a lazy one) and returns the first success:
  the recorded offsets and the offset of the end of the match.
\<close>

fun bt :: "item list \<Rightarrow> string \<Rightarrow> nat \<Rightarrow> nat list \<Rightarrow> (nat list \<times> nat) option" where
  "bt [] s n ms = Some (ms, n)"
| "bt (Mark # r) s n ms = bt r s n (ms @ [n])"
| "bt (One c # r) [] n ms = None"
| "bt (One c # r) (x # xs) n ms = (if cmatch c x then bt r xs (Suc n) ms else None)"
| "bt (Opt c # r) [] n ms = bt r [] n ms"
| "bt (Opt c # r) (x # xs) n ms =
     (if cmatch c x
      then (case bt r xs (Suc n) ms of Some res \<Rightarrow> Some res | None \<Rightarrow> bt r (x # xs) n ms)
      else bt r (x # xs) n ms)"
| "bt (Star c # r) [] n ms = bt r [] n ms"
| "bt (Star c # r) (x # xs) n ms =
     (if cmatch c x
      then (case bt (Star c # r) xs (Suc n) ms of Some res \<Rightarrow> Some res
            | None \<Rightarrow> bt r (x # xs) n ms)
      else bt r (x # xs) n ms)"
| "bt (Plus c # r) [] n ms = None"
| "bt (Plus c # r) (x # xs) n ms =
     (if cmatch c x then bt (Star c # r) xs (Suc n) ms else None)"
| "bt (Lazy c # r) [] n ms = bt r [] n ms"
| "bt (Lazy c # r) (x # xs) n ms =
     (case bt r (x # xs) n ms of Some res \<Rightarrow> Some res
      | None \<Rightarrow> if cmatch c x then bt (Lazy c # r) xs (Suc n) ms else None)"

definition lit :: "string \<Rightarrow> item list" where
  "lit w = map (\<lambda>c. One (Lit c)) w"

definition slice :: "string \<Rightarrow> nat \<Rightarrow> nat \<Rightarrow> string" where
  \<comment> \<open>\<open>s[a:b]\<close>\<close>
  "slice s a b = take (b - a) (drop a s)"

text \<open>
  \<open>re.search\<close>: the first offset, from the left, at which the pattern matches. The result
  is the text from the start of the match on, with the recorded offsets and the end offset.
\<close>

fun re_search :: "item list \<Rightarrow> string \<Rightarrow> (string \<times> nat list \<times> nat) option" where
  "re_search r [] = (case bt r [] 0 [] of Some (ms, e) \<Rightarrow> Some ([], ms, e) | None \<Rightarrow> None)"
| "re_search r (x # xs) =
     (case bt r (x # xs) 0 [] of Some (ms, e) \<Rightarrow> Some (x # xs, ms, e)
      | None \<Rightarrow> re_search r xs)"

text \<open>A match object of the block pattern: the whole match and its three groups.\<close>

record rmatch =
  group0 :: string
  group1 :: string
  group2 :: string
  group3 :: string

definition match_of :: "string \<Rightarrow> nat list \<Rightarrow> nat \<Rightarrow> rmatch" where
  "match_of s ms e =
     \<lparr>group0 = take e s, group1 = slice s (ms ! 0) (ms ! 1),
      group2 = slice s (ms ! 2) (ms ! 3), group3 = slice s (ms ! 4) (ms ! 5)\<rparr>"

lemma bt_bounds: "bt r s n ms = Some (ms', e) \<Longrightarrow> n \<le> e \<and> e \<le> n + length s"
  by (induction r s n ms rule: bt.induct) (auto split: if_splits option.splits)

text \<open>
  \<open>pattern.sub(f, s)\<close> and \<open>pattern.findall(s)\<close>: matches are taken from left to right and
  do not overlap; after a match the scan resumes at its end, and a character at which no
  match starts is copied (or skipped). After an empty match the scan moves on by one
  character; the patterns of this program start with a literal and never match the empty
  string.
\<close>

function re_sub :: "item list \<Rightarrow> (rmatch \<Rightarrow> string) \<Rightarrow> string \<Rightarrow> string" where
  "re_sub r f s =
     (case bt r s 0 [] of
        Some (ms, e) \<Rightarrow>
          if e = 0
          then f (match_of s ms e) @ (case s of [] \<Rightarrow> [] | x # xs \<Rightarrow> x # re_sub r f xs)
          else f (match_of s ms e) @ re_sub r f (drop e s)
      | None \<Rightarrow> (case s of [] \<Rightarrow> [] | x # xs \<Rightarrow> x # re_sub r f xs))"
  by pat_completeness auto
termination
  by (relation "measure (\<lambda>(r, f, s). length s)") (auto dest: bt_bounds)

declare re_sub.simps [simp del]

function re_findall :: "item list \<Rightarrow> string \<Rightarrow> string list" where
  "re_findall r s =
     (case bt r s 0 [] of
        Some (ms, e) \<Rightarrow>
          if e = 0
          then take e s # (case s of [] \<Rightarrow> [] | x # xs \<Rightarrow> re_findall r xs)
          else take e s # re_findall r (drop e s)
      | None \<Rightarrow> (case s of [] \<Rightarrow> [] | x # xs \<Rightarrow> re_findall r xs))"
  by pat_completeness auto
termination
  by (relation "measure (\<lambda>(r, s). length s)") (auto dest: bt_bounds)

declare re_findall.simps [simp del]

fun contains :: "string \<Rightarrow> string \<Rightarrow> bool" where
  \<comment> \<open>\<open>needle in hay\<close>\<close>
  "contains needle [] = (needle = [])"
| "contains needle (x # xs) = (take (length needle) (x # xs) = needle \<or> contains needle xs)"

section \<open>The transformation: \<open>update_catch_blocks\<close>\<close>

abbreviation ws1 :: "item list" where
  "ws1 \<equiv> [Plus Space]"

abbreviation ws0 :: "item list" where
  "ws0 \<equiv> [Star Space]"

definition quote_class :: cclass where
  \<comment> \<open>the class written \<open>[\'"]\<close> in the raw string\<close>
  "quote_class = OneOf [CHR 0x27, CHR 0x22]"

definition pattern :: "item list" where
  "pattern =
     [Mark] @ lit ''}'' @ ws1 @ lit ''catch'' @ ws1 @ lit ''(GuzzleException'' @ ws1
       @ lit ''$e)'' @ ws1 @ lit ''{'' @ ws0 @ lit ''\<newline>''
       @ ws1 @ lit ''$errorMessage'' @ ws1 @ lit ''='' @ ws1
       @ lit ''$this->extractErrorMessage($e);'' @ [Mark]
     @ ws0 @ lit ''\<newline>''
     @ [Mark] @ ws1 @ lit ''$this->logger->error('' @ [Plus (NotChr CHR '','')] @ lit '',''
       @ ws1 @ lit ''['' @ [One quote_class] @ lit ''error'' @ [One quote_class]
       @ ws1 @ lit ''=>'' @ ws1 @ lit ''$errorMessage'' @ [Mark]
     @ lit '']'' @ [Opt (Lit CHR '';'')] @ ws0 @ lit ''\<newline>''
     @ [Mark] @ ws1 @ lit ''throw'' @ ws1 @ lit ''new'' @ ws1 @ lit ''RagApiException(''
       @ [Plus (NotChr CHR '','')] @ lit '','' @ ws1 @ lit ''$e->getCode(),'' @ ws1
       @ lit ''$e)'' @ [Mark]
     @ lit '';''"

definition error_pattern :: "item list" where
  \<comment> \<open>\<open>throw\s+new\s+RagApiException\('([^']+)'\<close>\<close>
  "error_pattern =
     lit ''throw'' @ ws1 @ lit ''new'' @ ws1 @ lit ''RagApiException('' @ [One (Lit CHR 0x27)]
     @ [Mark, Plus (NotChr CHR 0x27), Mark, One (Lit CHR 0x27)]"

definition error_match :: "string \<Rightarrow> (string \<times> nat list \<times> nat) option" where
  "error_match throw_line = re_search error_pattern throw_line"

fun match_group1 :: "string \<times> nat list \<times> nat \<Rightarrow> string" where
  \<comment> \<open>\<open>error_match.group(1)\<close>\<close>
  "match_group1 (t, ms, e) = slice t (ms ! 0) (ms ! 1)"

definition indent :: string where
  \<comment> \<open>twelve spaces, the "standard indentation" of the source\<close>
  "indent = ''            ''"

text \<open>
  The lines of the raise statement are written in the source as f-strings with \<open>\$\<close>; Python
  keeps an unrecognised escape sequence as it stands, so each of them holds a backslash
  (\<open>CHR 0x5C\<close>) in front of the dollar sign. The two derivation lines and the logging line are
  ordinary strings without that backslash.
\<close>

definition new_block :: "rmatch \<Rightarrow> string \<Rightarrow> string" where
  "new_block m error_description =
     group1 m @ ''\<newline>''
     @ indent @ ''$errorData = $this->extractErrorData($e);\<newline>''
     @ indent @ ''$errorCode = $this->extractErrorCode($e);\<newline>''
     @ group2 m @ '', 'error_code' => $errorCode];\<newline>''
     @ indent @ ''throw new RagApiException(\<newline>''
     @ indent @ ''    '' @ [CHR 0x27] @ error_description @ [CHR 0x27] @ '' . ''
         @ [CHR 0x5C] @ ''$errorMessage,\<newline>''
     @ indent @ ''    '' @ [CHR 0x5C] @ ''$e->getCode(),\<newline>''
     @ indent @ ''    '' @ [CHR 0x5C] @ ''$e,\<newline>''
     @ indent @ ''    null,\<newline>''
     @ indent @ ''    '' @ [CHR 0x5C] @ ''$errorCode,\<newline>''
     @ indent @ ''    '' @ [CHR 0x5C] @ ''$errorData\<newline>''
     @ indent @ '');''"

definition replacement :: "rmatch \<Rightarrow> string" where
  "replacement m =
     (case error_match (group3 m) of
        None \<Rightarrow> group0 m
      | Some em \<Rightarrow> new_block m (match_group1 em))"

definition update_catch_blocks :: "string \<Rightarrow> string" where
  "update_catch_blocks content = re_sub pattern replacement content"

section \<open>The per-file driver: \<open>process_file\<close>\<close>

definition gate_pattern :: "item list" where
  "gate_pattern =
     lit ''extractErrorMessage'' @ [Lazy AnyChr] @ lit ''\<newline>'' @ [Lazy AnyChr]
     @ lit ''logger->error'' @ [Lazy AnyChr] @ lit ''\<newline>'' @ [Lazy AnyChr]
     @ lit ''throw new RagApiException'' @ [Lazy AnyChr] @ lit ''$e->getCode''
     @ [Lazy AnyChr] @ lit '';''"

definition needs_update :: "string \<Rightarrow> nat" where
  "needs_update content =
     length (filter (\<lambda>m. \<not> contains ''extractErrorData'' m) (re_findall gate_pattern content))"

datatype report =
    Processing string
  | AlreadyFullyUpdated
  | FoundPending nat
  | NoChangesMade
  | UpdatedSuccessfully
  | ErrorReport

text \<open>
  The files: a path that cannot be opened for reading has no content, and a path may refuse
  to be opened for writing. Either failure raises in the source and is caught at the end of
  \<open>process_file\<close>, which then prints the error and returns \<open>False\<close>.
\<close>

record file_system =
  contents :: "string \<rightharpoonup> string"
  writable :: "string \<Rightarrow> bool"

definition process_file :: "file_system \<Rightarrow> string \<Rightarrow> file_system \<times> report list \<times> bool" where
  "process_file fs filepath =
     (case contents fs filepath of
        None \<Rightarrow> (fs, [Processing filepath, ErrorReport], False)
      | Some content \<Rightarrow>
          if contains ''extractErrorData'' content \<and> needs_update content = 0
          then (fs, [Processing filepath, AlreadyFullyUpdated], False)
          else
            let found = (if contains ''extractErrorData'' content
                         then [FoundPending (needs_update content)] else []);
                updated_content = update_catch_blocks content
            in if updated_content = content
               then (fs, Processing filepath # found @ [NoChangesMade], False)
               else if \<not> writable fs filepath
               then (fs, Processing filepath # found @ [ErrorReport], False)
               else (fs\<lparr>contents := (contents fs)(filepath \<mapsto> updated_content)\<rparr>,
                     Processing filepath # found @ [UpdatedSuccessfully], True))"

section \<open>Vocabulary of the statements\<close>

text \<open>
  The text of a call statement with one argument per line, as the replacement lays it out:
  used to read the positional arguments off the emitted text.
\<close>

fun arg_lines :: "string \<Rightarrow> string list \<Rightarrow> string" where
  "arg_lines ind [] = []"
| "arg_lines ind [a] = ind @ ''    '' @ a @ ''\<newline>''"
| "arg_lines ind (a # b # as) = ind @ ''    '' @ a @ '',\<newline>'' @ arg_lines ind (b # as)"

definition raise_statement :: "string \<Rightarrow> string list \<Rightarrow> string" where
  "raise_statement ind args =
     ind @ ''throw new RagApiException(\<newline>'' @ arg_lines ind args @ ind @ '');''"

section \<open>Example documents\<close>

definition single_file :: "string \<Rightarrow> string \<Rightarrow> file_system" where
  "single_file path content = \<lparr>contents = [path \<mapsto> content], writable = (\<lambda>p. True)\<rparr>"

text \<open>One pending block, indented by twelve spaces, whose raise line has the literal
  \<open>'Foo failed: '\<close> as its first argument.\<close>

definition doc_foo :: string where
  "doc_foo =
     ''        } catch (GuzzleException $e) {\<newline>'' @
     ''            $errorMessage = $this->extractErrorMessage($e);\<newline>'' @
     ''            $this->logger->error('Foo failed', ['error' => $errorMessage];\<newline>'' @
     ''            throw new RagApiException('Foo failed: ', $e->getCode(), $e);\<newline>'' @
     ''        }\<newline>''"

definition out_foo :: string where
  "out_foo =
     ''        } catch (GuzzleException $e) {\<newline>'' @
     ''            $errorMessage = $this->extractErrorMessage($e);\<newline>'' @
     ''            $errorData = $this->extractErrorData($e);\<newline>'' @
     ''            $errorCode = $this->extractErrorCode($e);\<newline>'' @
     ''            $this->logger->error('Foo failed', ['error' => $errorMessage, 'error_code' => $errorCode];\<newline>'' @
     ''            throw new RagApiException(\<newline>'' @
     ''                'Foo failed: ' . '' @ [CHR 0x5C] @ ''$errorMessage,\<newline>'' @
     ''                '' @ [CHR 0x5C] @ ''$e->getCode(),\<newline>'' @
     ''                '' @ [CHR 0x5C] @ ''$e,\<newline>'' @
     ''                null,\<newline>'' @
     ''                '' @ [CHR 0x5C] @ ''$errorCode,\<newline>'' @
     ''                '' @ [CHR 0x5C] @ ''$errorData\<newline>'' @
     ''            );\<newline>'' @
     ''        }\<newline>''"

text \<open>The same block indented by four spaces, and the text the transformation gives.\<close>

definition doc_four :: string where
  "doc_four =
     ''} catch (GuzzleException $e) {\<newline>'' @
     ''    $errorMessage = $this->extractErrorMessage($e);\<newline>'' @
     ''    $this->logger->error('Foo failed', ['error' => $errorMessage];\<newline>'' @
     ''    throw new RagApiException('Foo failed: ', $e->getCode(), $e);\<newline>'' @
     ''}\<newline>''"

definition out_four :: string where
  "out_four =
     ''} catch (GuzzleException $e) {\<newline>'' @
     ''    $errorMessage = $this->extractErrorMessage($e);\<newline>'' @
     ''            $errorData = $this->extractErrorData($e);\<newline>'' @
     ''            $errorCode = $this->extractErrorCode($e);\<newline>'' @
     ''    $this->logger->error('Foo failed', ['error' => $errorMessage, 'error_code' => $errorCode];\<newline>'' @
     ''            throw new RagApiException(\<newline>'' @
     ''                'Foo failed: ' . '' @ [CHR 0x5C] @ ''$errorMessage,\<newline>'' @
     ''                '' @ [CHR 0x5C] @ ''$e->getCode(),\<newline>'' @
     ''                '' @ [CHR 0x5C] @ ''$e,\<newline>'' @
     ''                null,\<newline>'' @
     ''                '' @ [CHR 0x5C] @ ''$errorCode,\<newline>'' @
     ''                '' @ [CHR 0x5C] @ ''$errorData\<newline>'' @
     ''            );\<newline>'' @
     ''}\<newline>''"

text \<open>What the block of \<open>doc_four\<close> would become if every new line took the four spaces
  of the block itself.\<close>

definition four_with_own_indent :: string where
  "four_with_own_indent =
     ''} catch (GuzzleException $e) {\<newline>'' @
     ''    $errorMessage = $this->extractErrorMessage($e);\<newline>'' @
     ''    $errorData = $this->extractErrorData($e);\<newline>'' @
     ''    $errorCode = $this->extractErrorCode($e);\<newline>'' @
     ''    $this->logger->error('Foo failed', ['error' => $errorMessage, 'error_code' => $errorCode];\<newline>'' @
     ''    throw new RagApiException(\<newline>'' @
     ''        'Foo failed: ' . '' @ [CHR 0x5C] @ ''$errorMessage,\<newline>'' @
     ''        '' @ [CHR 0x5C] @ ''$e->getCode(),\<newline>'' @
     ''        '' @ [CHR 0x5C] @ ''$e,\<newline>'' @
     ''        null,\<newline>'' @
     ''        '' @ [CHR 0x5C] @ ''$errorCode,\<newline>'' @
     ''        '' @ [CHR 0x5C] @ ''$errorData\<newline>'' @
     ''    );\<newline>'' @
     ''}\<newline>''"

text \<open>A match object with the groups of the block of \<open>doc_foo\<close>.\<close>

definition m_foo :: rmatch where
  "m_foo =
     \<lparr>group0 =
        ''} catch (GuzzleException $e) {\<newline>'' @
        ''            $errorMessage = $this->extractErrorMessage($e);\<newline>'' @
        ''            $this->logger->error('Foo failed', ['error' => $errorMessage];\<newline>'' @
        ''            throw new RagApiException('Foo failed: ', $e->getCode(), $e);'',
      group1 =
        ''} catch (GuzzleException $e) {\<newline>'' @
        ''            $errorMessage = $this->extractErrorMessage($e);'',
      group2 = ''            $this->logger->error('Foo failed', ['error' => $errorMessage'',
      group3 = ''            throw new RagApiException('Foo failed: ', $e->getCode(), $e)''\<rparr>"

text \<open>A file that holds the marker and one catch block in ordinary PHP, the logging call
  closed by a parenthesis.\<close>

definition doc_pending_php :: string where
  "doc_pending_php =
     ''// see extractErrorData\<newline>'' @
     ''        } catch (GuzzleException $e) {\<newline>'' @
     ''            $errorMessage = $this->extractErrorMessage($e);\<newline>'' @
     ''            $this->logger->error('Foo failed', ['error' => $errorMessage]);\<newline>'' @
     ''            throw new RagApiException('Foo failed: ' . $errorMessage, $e->getCode(), $e);\<newline>'' @
     ''        }\<newline>''"

section \<open>Evaluation of the examples\<close>

lemma match_doc_foo:
  "bt pattern (drop 8 doc_foo) 0 [] = Some ([0, 90, 91, 163, 166, 238], 239)"
  by code_simp

lemma match_of_doc_foo: "match_of (drop 8 doc_foo) [0, 90, 91, 163, 166, 238] 239 = m_foo"
  by code_simp

lemma error_match_m_foo:
  "error_match (group3 m_foo) =
     Some (''throw new RagApiException('Foo failed: ', $e->getCode(), $e)'', [27, 39], 40)"
  by code_simp

lemma update_doc_foo: "update_catch_blocks doc_foo = out_foo"
  by code_simp

lemma update_out_foo: "update_catch_blocks out_foo = out_foo"
  by code_simp

lemma update_doc_four: "update_catch_blocks doc_four = out_four"
  by code_simp

lemma update_doc_pending_php: "update_catch_blocks doc_pending_php = doc_pending_php"
  by code_simp

lemma needs_update_doc_pending_php: "needs_update doc_pending_php = 1"
  by code_simp

section \<open>The replacement builder\<close>

lemma replacement_rewritten:
  "error_match (group3 m) = Some em \<Longrightarrow> replacement m = new_block m (match_group1 em)"
  by (simp add: replacement_def)

lemma replacement_declined: "error_match (group3 m) = None \<Longrightarrow> replacement m = group0 m"
  by (simp add: replacement_def)

text \<open>
  Claim C1, as amended. Whenever the builder rewrites a block, every line it synthesizes
  starts with a fixed run of spaces, twelve for the statements and sixteen for the arguments
  of the raise statement, whatever the indentation of the block in the document; only the
  two lines it re-emits, groups 1 and 2, carry the white space captured from the document.
\<close>

theorem C1_new_lines_fixed_indent:
  assumes "error_match (group3 m) = Some em"
  shows "replacement m =
     group1 m @ ''\<newline>''
     @ replicate 12 CHR '' '' @ ''$errorData = $this->extractErrorData($e);\<newline>''
     @ replicate 12 CHR '' '' @ ''$errorCode = $this->extractErrorCode($e);\<newline>''
     @ group2 m @ '', 'error_code' => $errorCode];\<newline>''
     @ replicate 12 CHR '' '' @ ''throw new RagApiException(\<newline>''
     @ replicate 16 CHR '' '' @ [CHR 0x27] @ match_group1 em @ [CHR 0x27] @ '' . ''
         @ [CHR 0x5C] @ ''$errorMessage,\<newline>''
     @ replicate 16 CHR '' '' @ [CHR 0x5C] @ ''$e->getCode(),\<newline>''
     @ replicate 16 CHR '' '' @ [CHR 0x5C] @ ''$e,\<newline>''
     @ replicate 16 CHR '' '' @ ''null,\<newline>''
     @ replicate 16 CHR '' '' @ [CHR 0x5C] @ ''$errorCode,\<newline>''
     @ replicate 16 CHR '' '' @ [CHR 0x5C] @ ''$errorData\<newline>''
     @ replicate 12 CHR '' '' @ '');''"
proof -
  have twelve: "replicate 12 CHR '' '' = indent"
    by (simp add: indent_def numeral_eq_Suc)
  have sixteen: "replicate 16 CHR '' '' = indent @ ''    ''"
    by (simp add: indent_def numeral_eq_Suc)
  show ?thesis
    unfolding twelve sixteen replacement_rewritten [OF assms] new_block_def by simp
qed

theorem C1_new_lines_fixed_indent_witness:
  "error_match (group3 m_foo) =
     Some (''throw new RagApiException('Foo failed: ', $e->getCode(), $e)'', [27, 39], 40)
   \<and> replacement m_foo =
     group1 m_foo @ ''\<newline>''
     @ replicate 12 CHR '' '' @ ''$errorData = $this->extractErrorData($e);\<newline>''
     @ replicate 12 CHR '' '' @ ''$errorCode = $this->extractErrorCode($e);\<newline>''
     @ group2 m_foo @ '', 'error_code' => $errorCode];\<newline>''
     @ replicate 12 CHR '' '' @ ''throw new RagApiException(\<newline>''
     @ replicate 16 CHR '' '' @ [CHR 0x27] @ ''Foo failed: '' @ [CHR 0x27] @ '' . ''
         @ [CHR 0x5C] @ ''$errorMessage,\<newline>''
     @ replicate 16 CHR '' '' @ [CHR 0x5C] @ ''$e->getCode(),\<newline>''
     @ replicate 16 CHR '' '' @ [CHR 0x5C] @ ''$e,\<newline>''
     @ replicate 16 CHR '' '' @ ''null,\<newline>''
     @ replicate 16 CHR '' '' @ [CHR 0x5C] @ ''$errorCode,\<newline>''
     @ replicate 16 CHR '' '' @ [CHR 0x5C] @ ''$errorData\<newline>''
     @ replicate 12 CHR '' '' @ '');''"
proof -
  have g: "match_group1
      (''throw new RagApiException('Foo failed: ', $e->getCode(), $e)'', [27, 39], 40)
      = ''Foo failed: ''"
    by (simp add: slice_def)
  show ?thesis
    using C1_new_lines_fixed_indent [OF error_match_m_foo] error_match_m_foo
    unfolding g by simp
qed

text \<open>
  Claim C1 as stated fails: the block of \<open>doc_four\<close> is indented by four spaces, and the
  lines the builder adds to it are indented by twelve and sixteen.
\<close>

theorem C1_counterexample:
  "update_catch_blocks doc_four = out_four \<and> out_four \<noteq> four_with_own_indent"
proof -
  have "out_four \<noteq> four_with_own_indent"
    by (simp add: out_four_def four_with_own_indent_def)
  then show ?thesis
    using update_doc_four by simp
qed

text \<open>
  Claim C3, what the code does at the failing input: for the block of \<open>doc_foo\<close>, whose
  raise line has the literal \<open>'Foo failed: '\<close> as first argument, the first argument of the
  rewritten raise statement is the literal, a dot, and then a backslash in front of
  \<open>$errorMessage\<close>, which is not the text \<open>'Foo failed: ' . $errorMessage\<close>.
\<close>

theorem C3_backslash_in_first_argument:
  "update_catch_blocks doc_foo =
     ''        } catch (GuzzleException $e) {\<newline>'' @
     ''            $errorMessage = $this->extractErrorMessage($e);\<newline>'' @
     ''            $errorData = $this->extractErrorData($e);\<newline>'' @
     ''            $errorCode = $this->extractErrorCode($e);\<newline>'' @
     ''            $this->logger->error('Foo failed', ['error' => $errorMessage, 'error_code' => $errorCode];\<newline>'' @
     raise_statement indent
       [[CHR 0x27] @ ''Foo failed: ' . '' @ [CHR 0x5C] @ ''$errorMessage'',
        [CHR 0x5C] @ ''$e->getCode()'',
        [CHR 0x5C] @ ''$e'',
        ''null'',
        [CHR 0x5C] @ ''$errorCode'',
        [CHR 0x5C] @ ''$errorData'']
     @ ''\<newline>        }\<newline>''"
  unfolding update_doc_foo
  by (simp add: out_foo_def raise_statement_def indent_def)

text \<open>
  Claim C5. Every raise statement the builder emits has six positional arguments, one per
  line, in the order: the description concatenated with the message variable, the code
  accessor of the caught error, the caught error, \<open>null\<close>, the error code, the error data.
  (Each dollar sign of these lines is preceded by the backslash of the source text.)
\<close>

theorem C5_six_arguments:
  assumes "error_match (group3 m) = Some em"
  shows "\<exists>args. replacement m =
       group1 m @ ''\<newline>''
       @ indent @ ''$errorData = $this->extractErrorData($e);\<newline>''
       @ indent @ ''$errorCode = $this->extractErrorCode($e);\<newline>''
       @ group2 m @ '', 'error_code' => $errorCode];\<newline>''
       @ raise_statement indent args
     \<and> length args = 6
     \<and> args =
        [[CHR 0x27] @ match_group1 em @ [CHR 0x27] @ '' . '' @ [CHR 0x5C] @ ''$errorMessage'',
         [CHR 0x5C] @ ''$e->getCode()'',
         [CHR 0x5C] @ ''$e'',
         ''null'',
         [CHR 0x5C] @ ''$errorCode'',
         [CHR 0x5C] @ ''$errorData'']"
  unfolding replacement_rewritten [OF assms]
  by (simp add: new_block_def raise_statement_def)

theorem C5_six_arguments_witness:
  "error_match (group3 m_foo) =
     Some (''throw new RagApiException('Foo failed: ', $e->getCode(), $e)'', [27, 39], 40)
   \<and> (\<exists>args. replacement m_foo =
       group1 m_foo @ ''\<newline>''
       @ indent @ ''$errorData = $this->extractErrorData($e);\<newline>''
       @ indent @ ''$errorCode = $this->extractErrorCode($e);\<newline>''
       @ group2 m_foo @ '', 'error_code' => $errorCode];\<newline>''
       @ raise_statement indent args
     \<and> length args = 6)"
  using C5_six_arguments [OF error_match_m_foo] error_match_m_foo by blast

section \<open>Documents without a match, and the driver\<close>

definition doc_plain :: string where
  "doc_plain = ''<?php\<newline>echo 1;\<newline>''"

lemma re_search_None_iff: "re_search r s = None \<longleftrightarrow> (\<forall>i. bt r (drop i s) 0 [] = None)"
proof (induction s)
  case Nil
  show ?case by (auto split: option.splits)
next
  case (Cons x xs)
  show ?case
  proof
    assume a: "re_search r (x # xs) = None"
    then have h: "bt r (x # xs) 0 [] = None" and t: "re_search r xs = None"
      by (auto split: option.splits)
    show "\<forall>i. bt r (drop i (x # xs)) 0 [] = None"
    proof
      fix i
      show "bt r (drop i (x # xs)) 0 [] = None"
        using h t Cons.IH by (cases i) auto
    qed
  next
    assume a: "\<forall>i. bt r (drop i (x # xs)) 0 [] = None"
    have h: "bt r (x # xs) 0 [] = None"
      using a [rule_format, of 0] by simp
    have "\<forall>i. bt r (drop i xs) 0 [] = None"
    proof
      fix i
      show "bt r (drop i xs) 0 [] = None"
        using a [rule_format, of "Suc i"] by simp
    qed
    then have "re_search r xs = None"
      using Cons.IH by simp
    then show "re_search r (x # xs) = None"
      using h by simp
  qed
qed

lemma re_sub_no_match: "re_search r s = None \<Longrightarrow> re_sub r f s = s"
proof (induction s)
  case Nil
  then show ?case
    by (subst re_sub.simps) (auto split: option.splits)
next
  case (Cons x xs)
  from Cons.prems have h: "bt r (x # xs) 0 [] = None" and t: "re_search r xs = None"
    by (auto split: option.splits)
  show ?case
    by (subst re_sub.simps) (simp add: h Cons.IH [OF t])
qed

lemma re_search_doc_plain: "re_search pattern doc_plain = None"
  by code_simp

lemma re_findall_doc_plain: "re_findall gate_pattern doc_plain = []"
  by code_simp

lemma marker_doc_plain: "\<not> contains ''extractErrorData'' doc_plain"
  by code_simp

lemma marker_out_foo: "contains ''extractErrorData'' out_foo"
  by code_simp

lemma needs_update_out_foo: "needs_update out_foo = 0"
  by code_simp

lemma marker_doc_pending_php: "contains ''extractErrorData'' doc_pending_php"
  by code_simp

text \<open>
  Claim C7, as amended. The gate runs only on a document that holds the marker
  \<open>extractErrorData\<close>: there, when its pattern counts no pending block (in particular when
  it matches nowhere), the file is reported as already fully updated and left alone. A document
  without the marker is not classified by the gate; it goes through the transformation, and
  when that changes nothing it is reported as unchanged.
\<close>

theorem C7_gate_classification:
  assumes "contents fs filepath = Some content"
  shows "(contains ''extractErrorData'' content \<and> needs_update content = 0 \<longrightarrow>
            process_file fs filepath = (fs, [Processing filepath, AlreadyFullyUpdated], False))
       \<and> (contains ''extractErrorData'' content \<and> re_findall gate_pattern content = [] \<longrightarrow>
            process_file fs filepath = (fs, [Processing filepath, AlreadyFullyUpdated], False))
       \<and> (\<not> contains ''extractErrorData'' content \<and> update_catch_blocks content = content \<longrightarrow>
            process_file fs filepath = (fs, [Processing filepath, NoChangesMade], False))"
  using assms by (simp add: process_file_def needs_update_def)

theorem C7_gate_classification_witness:
  "contents (single_file ''a.php'' out_foo) ''a.php'' = Some out_foo
   \<and> contains ''extractErrorData'' out_foo \<and> needs_update out_foo = 0
   \<and> process_file (single_file ''a.php'' out_foo) ''a.php''
       = (single_file ''a.php'' out_foo, [Processing ''a.php'', AlreadyFullyUpdated], False)
   \<and> contents (single_file ''b.php'' doc_plain) ''b.php'' = Some doc_plain
   \<and> \<not> contains ''extractErrorData'' doc_plain
   \<and> update_catch_blocks doc_plain = doc_plain
   \<and> process_file (single_file ''b.php'' doc_plain) ''b.php''
       = (single_file ''b.php'' doc_plain, [Processing ''b.php'', NoChangesMade], False)"
proof -
  have a: "contents (single_file ''a.php'' out_foo) ''a.php'' = Some out_foo"
    by (simp add: single_file_def)
  have b: "contents (single_file ''b.php'' doc_plain) ''b.php'' = Some doc_plain"
    by (simp add: single_file_def)
  have u: "update_catch_blocks doc_plain = doc_plain"
    unfolding update_catch_blocks_def by (rule re_sub_no_match [OF re_search_doc_plain])
  show ?thesis
    using C7_gate_classification [OF a] C7_gate_classification [OF b]
      a b u marker_out_foo needs_update_out_foo marker_doc_plain
    by simp
qed

text \<open>
  Claim C7 as stated fails: \<open>doc_plain\<close> holds no occurrence of the idiom for either pattern,
  and it is reported as unchanged, not as already fully updated.
\<close>

theorem C7_counterexample:
  "re_search pattern doc_plain = None \<and> re_findall gate_pattern doc_plain = []
   \<and> snd (process_file (single_file ''b.php'' doc_plain) ''b.php'')
       = ([Processing ''b.php'', NoChangesMade], False)
   \<and> NoChangesMade \<noteq> AlreadyFullyUpdated"
proof -
  have u: "update_catch_blocks doc_plain = doc_plain"
    unfolding update_catch_blocks_def by (rule re_sub_no_match [OF re_search_doc_plain])
  have "snd (process_file (single_file ''b.php'' doc_plain) ''b.php'')
       = ([Processing ''b.php'', NoChangesMade], False)"
    using marker_doc_plain u by (simp add: process_file_def single_file_def)
  then show ?thesis
    using re_search_doc_plain re_findall_doc_plain by simp
qed

text \<open>
  Claim C8. A document in which the block pattern matches nowhere comes back from the
  transformation as it went in; and whenever the text computed for a file equals the text
  read from it, the files are left as they were. A file already fully migrated is such a
  file.
\<close>

theorem C8_identity_and_no_write:
  "(re_search pattern content = None \<longrightarrow> update_catch_blocks content = content)
   \<and> (contents fs filepath = Some content \<and> update_catch_blocks content = content \<longrightarrow>
        fst (process_file fs filepath) = fs)"
  by (simp add: process_file_def update_catch_blocks_def re_sub_no_match Let_def)

theorem C8_identity_and_no_write_witness:
  "re_search pattern doc_plain = None \<and> update_catch_blocks doc_plain = doc_plain
   \<and> contents (single_file ''a.php'' out_foo) ''a.php'' = Some out_foo
   \<and> update_catch_blocks out_foo = out_foo
   \<and> fst (process_file (single_file ''a.php'' out_foo) ''a.php'') = single_file ''a.php'' out_foo"
proof -
  have a: "contents (single_file ''a.php'' out_foo) ''a.php'' = Some out_foo"
    by (simp add: single_file_def)
  show ?thesis
    using C8_identity_and_no_write [of doc_plain "single_file ''a.php'' out_foo" "''a.php''"]
      C8_identity_and_no_write [of out_foo "single_file ''a.php'' out_foo" "''a.php''"]
      re_search_doc_plain a update_out_foo
    by simp
qed

text \<open>
  Claim C10. The gate counts with a pattern of its own, which accepts text that the block
  pattern rejects: \<open>doc_pending_php\<close> holds the marker and a catch block whose logging call is
  closed by a parenthesis. The gate counts one block that still needs an update; the
  transformation returns the document unchanged, so nothing is rewritten.
\<close>

theorem C10_gate_counts_more_than_is_rewritten:
  "\<exists>content. contains ''extractErrorData'' content
     \<and> 1 \<le> needs_update content
     \<and> update_catch_blocks content = content
     \<and> process_file (single_file filepath content) filepath
         = (single_file filepath content,
            [Processing filepath, FoundPending (needs_update content), NoChangesMade], False)"
proof -
  have "process_file (single_file filepath doc_pending_php) filepath
         = (single_file filepath doc_pending_php,
            [Processing filepath, FoundPending (needs_update doc_pending_php), NoChangesMade],
            False)"
    using marker_doc_pending_php needs_update_doc_pending_php update_doc_pending_php
    by (simp add: process_file_def single_file_def)
  then show ?thesis
    using marker_doc_pending_php needs_update_doc_pending_php update_doc_pending_php
    by (intro exI [of _ doc_pending_php]) simp
qed

end
